theory Spec2Isabelle
  imports Main "HOL-Library.Word" "HOL-Library.AList"
begin

section \<open>UDisks2 storage access (udisksstorageaccess.cpp)\<close>

subsection \<open>What the adapter sends out\<close>

text \<open>
  \<open>Solid::ErrorType\<close>, the error code carried by a completion broadcast.
\<close>

datatype ErrorType =
  NoError | UnauthorizedOperation | DeviceBusy | OperationFailed
  | UserCanceled | InvalidOption | MissingDriver

text \<open>
  The method calls the adapter makes on the storage service over the system bus. Each
  carries the object path it is addressed to; \<open>Mount\<close> also carries whether the option
  map holds \<open>options = flush\<close>, \<open>Unlock\<close> the passphrase.
\<close>

datatype bus_call =
  Mount string bool
  | Unmount string
  | Unlock string string
  | Lock string
  | Eject string
  | PowerOff string

text \<open>
  Everything observable a member function does besides updating its fields, in program
  order: broadcasts through the device, Qt signals, session-bus registrations, the call
  to the passphrase dialog and the calls to the storage service. Property reads and the
  blocking \<open>Introspect\<close> round trip are queries; they are answered by the \<open>udisks\<close>
  record below and not logged.
\<close>

datatype effect =
  BroadcastActionRequested string
  | BroadcastActionDone string ErrorType string
  | InvalidateCache
  | AccessibilityChanged bool string
  | SetupRequested string
  | SetupDone int string string
  | TeardownRequested string
  | TeardownDone int string string
  | RegisterObject string
  | UnregisterObject string
  | ShowPassphraseDialog string string string "32 word" string
  | SystemBusCall bus_call

subsection \<open>What the adapter reads\<close>

text \<open>
  The \<open>Device\<close> class, the D-Bus connection and Qt are not part of the two source
  files. The record holds what they answer while one member function runs:
  \<^item> \<open>udi\<close>, \<open>isEncryptedContainer\<close>, \<open>isOpticalDisc\<close>, \<open>drivePath\<close>: the
    accessors of \<open>m_device\<close>;
  \<^item> \<open>introspect\<close>: the reply to \<open>Introspect\<close> on the block-devices prefix, \<open>None\<close>
    when the reply is not valid, otherwise the \<open>node\<close> elements in document order,
    each with its \<open>name\<close> attribute if it has one;
  \<^item> \<open>isMounted p\<close>, \<open>propMountPoints p\<close>, ...: what \<open>Device(p)\<close> answers for
    \<open>isMounted()\<close>, \<open>prop("MountPoints")\<close> cast to a byte-array list, and so on;
    \<open>m_device\<close> is \<open>Device(udi)\<close>;
  \<^item> \<open>decodeName\<close>: \<open>QFile::decodeName\<close>, from a byte array to a \<open>QString\<close>
    (a \<open>string\<close> here, one character per code unit);
  \<^item> \<open>callWithCallback c\<close>: whether the connection accepted the message \<open>c\<close>;
  \<^item> \<open>showPassphraseDialogValid\<close>: whether the reply of the passphrase dialog call
    is valid;
  \<^item> \<open>baseService\<close>, \<open>focusWindow\<close> (the window id of the focus window, if any),
    \<open>applicationName\<close>, \<open>homePath\<close>: the session bus and the application;
  \<^item> \<open>errorToSolidError\<close>, \<open>errorToString\<close>: the device's translation of a D-Bus
    error name.
\<close>

record udisks =
  udi :: string
  isEncryptedContainer :: bool
  isOpticalDisc :: bool
  drivePath :: string
  introspect :: "string option list option"
  isMounted :: "string \<Rightarrow> bool"
  propMountPoints :: "string \<Rightarrow> string list"
  propCryptoBackingDevice :: "string \<Rightarrow> string"
  propMediaRemovable :: "string \<Rightarrow> bool"
  propMediaAvailable :: "string \<Rightarrow> bool"
  propCanPowerOff :: "string \<Rightarrow> bool"
  propIdType :: "string \<Rightarrow> string"
  propHintIgnore :: "string \<Rightarrow> bool"
  decodeName :: "string \<Rightarrow> string"
  callWithCallback :: "bus_call \<Rightarrow> bool"
  showPassphraseDialogValid :: bool
  baseService :: string
  focusWindow :: "32 word option"
  applicationName :: string
  homePath :: string
  errorToSolidError :: "string \<Rightarrow> ErrorType"
  errorToString :: "string \<Rightarrow> string"

subsection \<open>The adapter's fields\<close>

text \<open>
  The members of \<open>StorageAccess\<close>. \<open>number\<close> is the function-local static counter of
  \<open>generateReturnObjectPath\<close>, a \<open>QAtomicInt\<close> that starts at 1.
\<close>

record StorageAccess =
  m_setupInProgress :: bool
  m_teardownInProgress :: bool
  m_passphraseRequested :: bool
  m_isAccessible :: bool
  m_lastReturnObject :: string
  number :: "32 word"

subsection \<open>Strings\<close>

definition startsWith :: "string \<Rightarrow> string \<Rightarrow> bool" where
  "startsWith s p = (take (length p) s = p)"

fun number_nat :: "nat \<Rightarrow> string" where
  "number_nat n =
     (if n < 10 then [''0123456789'' ! n]
      else number_nat (n div 10) @ [''0123456789'' ! (n mod 10)])"

declare number_nat.simps [simp del]

definition QString_number :: "int \<Rightarrow> string" where
  "QString_number i =
     (if i < 0 then CHR ''-'' # number_nat (nat (- i)) else number_nat (nat i))"

subsection \<open>Queries\<close>

definition isLuksDevice :: "udisks \<Rightarrow> bool" where
  "isLuksDevice w = isEncryptedContainer w"

definition block_devices_prefix :: string where
  "block_devices_prefix = ''/org/freedesktop/UDisks2/block_devices''"

text \<open>The loop of \<open>clearTextPath\<close> over the node list: the first match is returned.\<close>

fun scanNodes :: "udisks \<Rightarrow> string option list \<Rightarrow> string" where
  "scanNodes w [] = []"
| "scanNodes w (None # nodes) = scanNodes w nodes"
| "scanNodes w (Some name # nodes) =
     (let holder = block_devices_prefix @ ''/'' @ name
      in if udi w = propCryptoBackingDevice w holder then holder
         else scanNodes w nodes)"

definition clearTextPath :: "udisks \<Rightarrow> string" where
  "clearTextPath w =
     (case introspect w of
        None \<Rightarrow> []
      | Some nodes \<Rightarrow> scanNodes w nodes)"

definition isAccessible :: "udisks \<Rightarrow> bool" where
  "isAccessible w =
     (if isLuksDevice w then
        (let path = clearTextPath w
         in if path = [] \<or> path = ''/'' then False else isMounted w path)
      else isMounted w (udi w))"

text \<open>The loop of \<open>get_shortest\<close> from index 1 on, \<open>shortest\<close> being the loop variable.\<close>

fun get_shortest_from :: "(string \<Rightarrow> string) \<Rightarrow> string \<Rightarrow> string list \<Rightarrow> string" where
  "get_shortest_from dec shortest [] = shortest"
| "get_shortest_from dec shortest (m # ms) =
     (let current = dec m
      in get_shortest_from dec
           (if length shortest > length current then current else shortest) ms)"

definition get_shortest :: "(string \<Rightarrow> string) \<Rightarrow> string list \<Rightarrow> string" where
  "get_shortest dec mntPoints =
     (case mntPoints of
        [] \<Rightarrow> []
      | first # rest \<Rightarrow> get_shortest_from dec (dec first) rest)"

definition filePath :: "udisks \<Rightarrow> string" where
  "filePath w =
     (if isLuksDevice w then
        (let path = clearTextPath w
         in if path = [] \<or> path = ''/'' then []
            else get_shortest (decodeName w) (propMountPoints w path))
      else get_shortest (decodeName w) (propMountPoints w (udi w)))"

definition isIgnored :: "udisks \<Rightarrow> bool" where
  "isIgnored w =
     (if propHintIgnore w (udi w) then True
      else (let path = filePath w;
                inUserPath = (startsWith path ''/media/'' \<or>
                              startsWith path ''/run/media/'' \<or>
                              startsWith path (homePath w))
            in \<not> inUserPath))"

subsection \<open>Calls to the storage service\<close>

text \<open>
  Each returns what the connection answered and the call it made; none touches a field.
\<close>

definition mount :: "udisks \<Rightarrow> bool \<times> effect list" where
  "mount w =
     (let path = (if isLuksDevice w \<and> clearTextPath w \<noteq> [] then clearTextPath w
                  else udi w);
          msg = Mount path (propIdType w (udi w) = ''vfat'')
      in (callWithCallback w msg, [SystemBusCall msg]))"

definition unmount :: "udisks \<Rightarrow> bool \<times> effect list" where
  "unmount w =
     (let path = (if isLuksDevice w \<and> clearTextPath w \<noteq> [] then clearTextPath w
                  else udi w);
          msg = Unmount path
      in (callWithCallback w msg, [SystemBusCall msg]))"

definition callCryptoSetup :: "udisks \<Rightarrow> string \<Rightarrow> effect list" where
  "callCryptoSetup w passphrase = [SystemBusCall (Unlock (udi w) passphrase)]"

definition callCryptoTeardown :: "udisks \<Rightarrow> bool \<Rightarrow> bool \<times> effect list" where
  "callCryptoTeardown w actOnParent =
     (let msg = Lock (if actOnParent then propCryptoBackingDevice w (udi w) else udi w)
      in (callWithCallback w msg, [SystemBusCall msg]))"

subsection \<open>The passphrase dialog\<close>

definition generateReturnObjectPath :: "StorageAccess \<Rightarrow> string \<times> StorageAccess" where
  "generateReturnObjectPath s =
     (''/org/kde/solid/UDisks2StorageAccess_'' @ QString_number (sint (number s)),
      s\<lparr>number := number s + 1\<rparr>)"

definition requestPassphrase :: "udisks \<Rightarrow> StorageAccess \<Rightarrow> bool \<times> StorageAccess \<times> effect list" where
  "requestPassphrase w s =
     (let (ret, s1) = generateReturnObjectPath s;
          s2 = s1\<lparr>m_lastReturnObject := ret\<rparr>;
          wId = (case focusWindow w of None \<Rightarrow> 0 | Some i \<Rightarrow> i);
          s3 = s2\<lparr>m_passphraseRequested := showPassphraseDialogValid w\<rparr>
      in (m_passphraseRequested s3, s3,
          [RegisterObject ret,
           ShowPassphraseDialog (udi w) (baseService w) ret wId (applicationName w)]))"

definition passphraseReply :: "udisks \<Rightarrow> StorageAccess \<Rightarrow> string \<Rightarrow> StorageAccess \<times> effect list" where
  "passphraseReply w s passphrase =
     (if m_passphraseRequested s then
        (let s1 = s\<lparr>m_passphraseRequested := False\<rparr>;
             e1 = [UnregisterObject (m_lastReturnObject s)]
         in if passphrase \<noteq> [] then (s1, e1 @ callCryptoSetup w passphrase)
            else (s1\<lparr>m_setupInProgress := False\<rparr>,
                  e1 @ [BroadcastActionDone ''setup'' UserCanceled []]))
      else (s, []))"

subsection \<open>Setup, teardown and the accessibility cache\<close>

definition StorageAccess_setup :: "udisks \<Rightarrow> StorageAccess \<Rightarrow> bool \<times> StorageAccess \<times> effect list" where
  "StorageAccess_setup w s =
     (if m_teardownInProgress s \<or> m_setupInProgress s then (False, s, [])
      else
        (let s1 = s\<lparr>m_setupInProgress := True\<rparr>;
             e1 = [BroadcastActionRequested ''setup'']
         in if isEncryptedContainer w \<and> clearTextPath w = [] then
              (let (r, s2, e2) = requestPassphrase w s1 in (r, s2, e1 @ e2))
            else
              (let (r, e2) = mount w in (r, s1, e1 @ e2))))"

definition StorageAccess_teardown :: "udisks \<Rightarrow> StorageAccess \<Rightarrow> bool \<times> StorageAccess \<times> effect list" where
  "StorageAccess_teardown w s =
     (if m_teardownInProgress s \<or> m_setupInProgress s then (False, s, [])
      else
        (let s1 = s\<lparr>m_teardownInProgress := True\<rparr>;
             e1 = [BroadcastActionRequested ''teardown''];
             (r, e2) = unmount w
         in (r, s1, e1 @ e2)))"

definition updateCache :: "udisks \<Rightarrow> StorageAccess \<Rightarrow> StorageAccess" where
  "updateCache w s = s\<lparr>m_isAccessible := isAccessible w\<rparr>"

definition checkAccessibility :: "udisks \<Rightarrow> StorageAccess \<Rightarrow> StorageAccess \<times> effect list" where
  "checkAccessibility w s =
     (let old_isAccessible = m_isAccessible s;
          s1 = updateCache w s
      in (s1, if old_isAccessible \<noteq> m_isAccessible s1
              then [AccessibilityChanged (m_isAccessible s1) (udi w)] else []))"

text \<open>
  The device's \<open>changed()\<close> signal is connected to \<open>checkAccessibility\<close>: a sequence
  of notifications, each with what the devices answer at that time, runs it once per
  notification.
\<close>

fun deviceChanged :: "udisks list \<Rightarrow> StorageAccess \<Rightarrow> StorageAccess \<times> effect list" where
  "deviceChanged [] s = (s, [])"
| "deviceChanged (w # ws) s =
     (let (s1, e1) = checkAccessibility w s;
          (s2, e2) = deviceChanged ws s1
      in (s2, e1 @ e2))"

subsection \<open>Completion of a call to the storage service\<close>

text \<open>The test that guards the eject / power-off attempt in \<open>slotDBusReply\<close>.\<close>

definition drivePathGuard :: "string \<Rightarrow> bool" where
  "drivePathGuard path = (\<not> (path = []) \<or> path \<noteq> ''/'')"

definition ejectOrPowerOff :: "udisks \<Rightarrow> effect list" where
  "ejectOrPowerOff w =
     (let path = drivePath w
      in if drivePathGuard path then
           (if propMediaRemovable w path \<and> propMediaAvailable w path \<and>
               \<not> isOpticalDisc w
            then [SystemBusCall (Eject path)]
            else if propCanPowerOff w path \<and> \<not> isOpticalDisc w
            then [SystemBusCall (PowerOff path)]
            else [])
         else [])"

definition slotDBusReply :: "udisks \<Rightarrow> StorageAccess \<Rightarrow> StorageAccess \<times> effect list" where
  "slotDBusReply w s =
     (if m_setupInProgress s then
        (if isLuksDevice w \<and> \<not> isAccessible w then (s, snd (mount w))
         else
           (let s1 = s\<lparr>m_setupInProgress := False\<rparr>;
                e1 = [InvalidateCache, BroadcastActionDone ''setup'' NoError []];
                (s2, e2) = checkAccessibility w s1
            in (s2, e1 @ e2)))
      else if m_teardownInProgress s then
        (let ctPath = clearTextPath w
         in if isLuksDevice w \<and> ctPath \<noteq> [] \<and> ctPath \<noteq> ''/'' then
              (s, snd (callCryptoTeardown w False))
            else if ctPath \<noteq> [] \<and> ctPath \<noteq> ''/'' then
              (s, snd (callCryptoTeardown w True))
            else
              (let e0 = ejectOrPowerOff w;
                   s1 = s\<lparr>m_teardownInProgress := False\<rparr>;
                   e1 = [InvalidateCache, BroadcastActionDone ''teardown'' NoError []];
                   (s2, e2) = checkAccessibility w s1
               in (s2, e0 @ e1 @ e2)))
      else (s, []))"

definition slotDBusError :: "udisks \<Rightarrow> StorageAccess \<Rightarrow> string \<Rightarrow> string \<Rightarrow> StorageAccess \<times> effect list" where
  "slotDBusError w s name message =
     (if m_setupInProgress s then
        (let s1 = s\<lparr>m_setupInProgress := False\<rparr>;
             e1 = [BroadcastActionDone ''setup'' (errorToSolidError w name)
                     (errorToString w name @ '': '' @ message)];
             (s2, e2) = checkAccessibility w s1
         in (s2, e1 @ e2))
      else if m_teardownInProgress s then
        (let s1 = s\<lparr>m_teardownInProgress := False\<rparr>;
             e1 = [BroadcastActionDone ''teardown'' (errorToSolidError w name)
                     (errorToString w name @ '': '' @ message)];
             (s2, e2) = checkAccessibility w s1
         in (s2, e1 @ e2))
      else (s, []))"

definition slotSetupRequested :: "udisks \<Rightarrow> StorageAccess \<Rightarrow> StorageAccess \<times> effect list" where
  "slotSetupRequested w s = (s\<lparr>m_setupInProgress := True\<rparr>, [SetupRequested (udi w)])"

definition slotSetupDone :: "udisks \<Rightarrow> StorageAccess \<Rightarrow> int \<Rightarrow> string \<Rightarrow> StorageAccess \<times> effect list" where
  "slotSetupDone w s error errorString =
     (let s1 = s\<lparr>m_setupInProgress := False\<rparr>;
          (s2, e2) = checkAccessibility w s1
      in (s2, e2 @ [SetupDone error errorString (udi w)]))"

definition slotTeardownRequested :: "udisks \<Rightarrow> StorageAccess \<Rightarrow> StorageAccess \<times> effect list" where
  "slotTeardownRequested w s = (s\<lparr>m_teardownInProgress := True\<rparr>, [TeardownRequested (udi w)])"

definition slotTeardownDone :: "udisks \<Rightarrow> StorageAccess \<Rightarrow> int \<Rightarrow> string \<Rightarrow> StorageAccess \<times> effect list" where
  "slotTeardownDone w s error errorString =
     (let s1 = s\<lparr>m_teardownInProgress := False\<rparr>;
          (s2, e2) = checkAccessibility w s1
      in (s2, e2 @ [TeardownDone error errorString (udi w)]))"

section \<open>UPower device (upowerdevice.cpp, upower.h)\<close>

subsection \<open>Device kinds and interface types\<close>

text \<open>The enumerators of \<open>UpDeviceKind\<close>, in the order of \<open>upower.h\<close>, from 0.\<close>

definition UP_DEVICE_KIND_UNKNOWN :: "32 word" where "UP_DEVICE_KIND_UNKNOWN = 0"
definition UP_DEVICE_KIND_LINE_POWER :: "32 word" where "UP_DEVICE_KIND_LINE_POWER = 1"
definition UP_DEVICE_KIND_BATTERY :: "32 word" where "UP_DEVICE_KIND_BATTERY = 2"
definition UP_DEVICE_KIND_UPS :: "32 word" where "UP_DEVICE_KIND_UPS = 3"
definition UP_DEVICE_KIND_MONITOR :: "32 word" where "UP_DEVICE_KIND_MONITOR = 4"
definition UP_DEVICE_KIND_MOUSE :: "32 word" where "UP_DEVICE_KIND_MOUSE = 5"
definition UP_DEVICE_KIND_KEYBOARD :: "32 word" where "UP_DEVICE_KIND_KEYBOARD = 6"
definition UP_DEVICE_KIND_PDA :: "32 word" where "UP_DEVICE_KIND_PDA = 7"
definition UP_DEVICE_KIND_PHONE :: "32 word" where "UP_DEVICE_KIND_PHONE = 8"
definition UP_DEVICE_KIND_MEDIA_PLAYER :: "32 word" where "UP_DEVICE_KIND_MEDIA_PLAYER = 9"
definition UP_DEVICE_KIND_TABLET :: "32 word" where "UP_DEVICE_KIND_TABLET = 10"
definition UP_DEVICE_KIND_COMPUTER :: "32 word" where "UP_DEVICE_KIND_COMPUTER = 11"
definition UP_DEVICE_KIND_GAMING_INPUT :: "32 word" where "UP_DEVICE_KIND_GAMING_INPUT = 12"
definition UP_DEVICE_KIND_LAST :: "32 word" where "UP_DEVICE_KIND_LAST = 13"

text \<open>
  \<open>Solid::DeviceInterface::Type\<close>: the two values \<open>queryDeviceInterface\<close> names, and
  one constructor for every other enumerator.
\<close>

datatype DeviceInterface_Type = GenericInterface | Battery | OtherInterface

subsection \<open>Variants, the remote device and the adapter's cache\<close>

text \<open>
  A \<open>QVariant\<close> is \<open>'v option\<close>: \<open>None\<close> is the invalid variant \<open>QVariant()\<close>, and
  \<open>'v\<close> is whatever a valid variant holds. Qt's conversions \<open>toUInt\<close> and
  \<open>toString\<close> are parameters.
\<close>

record 'v QVariant_conv =
  toUInt :: "'v option \<Rightarrow> 32 word"
  toString :: "'v option \<Rightarrow> string"

text \<open>
  What the UPower service answers while one member function runs: the reply of
  \<open>GetAll\<close> (\<open>None\<close> when it is not valid, otherwise the property map as a list of
  key-value pairs), \<open>m_device.property(key)\<close>, and whether the reply of \<open>Refresh\<close> is
  valid.
\<close>

record 'v upower =
  getAll :: "(string \<times> 'v option) list option"
  property :: "string \<Rightarrow> 'v option"
  refreshValid :: bool

text \<open>
  \<open>m_cache\<close> is a \<open>QMap\<close>, kept as a list of key-value pairs: it is empty when the
  list is, \<open>map_of\<close> looks a key up and \<open>AList.update\<close> is \<open>m_cache[key] = v\<close>.
\<close>

record 'v UPowerDevice =
  m_cache :: "(string \<times> 'v option) list"

datatype upower_effect = RefreshCall | ChangedSignal

subsection \<open>The property cache\<close>

definition allProperties ::
  "'v upower \<Rightarrow> 'v UPowerDevice \<Rightarrow> (string \<times> 'v option) list \<times> 'v UPowerDevice" where
  "allProperties r d =
     (let d1 = (case getAll r of
                  Some reply \<Rightarrow> d\<lparr>m_cache := reply\<rparr>
                | None \<Rightarrow> d\<lparr>m_cache := []\<rparr>)
      in (m_cache d1, d1))"

definition cache_contains :: "'v UPowerDevice \<Rightarrow> string \<Rightarrow> bool" where
  "cache_contains d key = (map_of (m_cache d) key \<noteq> None)"

definition cache_value :: "'v UPowerDevice \<Rightarrow> string \<Rightarrow> 'v option" where
  "cache_value d key = (case map_of (m_cache d) key of Some v \<Rightarrow> v | None \<Rightarrow> None)"

definition checkCache :: "'v upower \<Rightarrow> 'v UPowerDevice \<Rightarrow> string \<Rightarrow> 'v UPowerDevice" where
  "checkCache r d key =
     (let d1 = (if m_cache d = [] then snd (allProperties r d) else d)
      in if cache_contains d1 key then d1
         else
           (case property r key of
              Some v \<Rightarrow> d1\<lparr>m_cache := AList.update key (Some v) (m_cache d1)\<rparr>
            | None \<Rightarrow> d1\<lparr>m_cache := AList.update key None (m_cache d1)\<rparr>))"

definition UPowerDevice_prop :: "'v upower \<Rightarrow> 'v UPowerDevice \<Rightarrow> string \<Rightarrow> 'v option \<times> 'v UPowerDevice" where
  "UPowerDevice_prop r d key = (let d1 = checkCache r d key in (cache_value d1 key, d1))"

definition propertyExists :: "'v upower \<Rightarrow> 'v UPowerDevice \<Rightarrow> string \<Rightarrow> bool \<times> 'v UPowerDevice" where
  "propertyExists r d key = (let d1 = checkCache r d key in (cache_contains d1 key, d1))"

subsection \<open>Interfaces of a device\<close>

definition queryDeviceInterface ::
  "'v QVariant_conv \<Rightarrow> 'v upower \<Rightarrow> 'v UPowerDevice \<Rightarrow> DeviceInterface_Type
     \<Rightarrow> bool \<times> 'v UPowerDevice" where
  "queryDeviceInterface q r d type =
     (let (v, d1) = UPowerDevice_prop r d ''Type'';
          uptype = toUInt q v
      in case type of
           GenericInterface \<Rightarrow> (True, d1)
         | Battery \<Rightarrow>
             if uptype = UP_DEVICE_KIND_BATTERY \<or> uptype = UP_DEVICE_KIND_UPS \<or>
                uptype = UP_DEVICE_KIND_MOUSE \<or> uptype = UP_DEVICE_KIND_KEYBOARD \<or>
                uptype = UP_DEVICE_KIND_PDA \<or> uptype = UP_DEVICE_KIND_PHONE \<or>
                uptype = UP_DEVICE_KIND_GAMING_INPUT
             then (True, d1)
             else if uptype = UP_DEVICE_KIND_UNKNOWN then
               (let (n, d2) = UPowerDevice_prop r d1 ''NativePath''
                in if startsWith (toString q n) ''/org/bluez/'' then (True, d2)
                   else (False, d2))
             else if uptype = UP_DEVICE_KIND_LINE_POWER \<or> uptype = UP_DEVICE_KIND_MONITOR \<or>
                uptype = UP_DEVICE_KIND_MEDIA_PLAYER \<or> uptype = UP_DEVICE_KIND_TABLET \<or>
                uptype = UP_DEVICE_KIND_COMPUTER \<or> uptype = UP_DEVICE_KIND_LAST
             then (False, d1)
             else (False, d1)
         | OtherInterface \<Rightarrow> (False, d1))"

subsection \<open>Change notifications\<close>

definition slotChanged :: "'v UPowerDevice \<Rightarrow> 'v UPowerDevice \<times> upower_effect list" where
  "slotChanged d = (d\<lparr>m_cache := []\<rparr>, [ChangedSignal])"

definition UP_DBUS_INTERFACE_DEVICE :: string where
  "UP_DBUS_INTERFACE_DEVICE = ''org.freedesktop.UPower'' @ ''.Device''"

definition onPropertiesChanged ::
  "'v UPowerDevice \<Rightarrow> string \<Rightarrow> 'v UPowerDevice \<times> upower_effect list" where
  "onPropertiesChanged d ifaceName =
     (if ifaceName = UP_DBUS_INTERFACE_DEVICE then slotChanged d else (d, []))"

definition login1Resuming ::
  "'v upower \<Rightarrow> 'v UPowerDevice \<Rightarrow> bool \<Rightarrow> 'v UPowerDevice \<times> upower_effect list" where
  "login1Resuming r d active =
     (if \<not> active then
        (if refreshValid r then
           (let (d1, e1) = slotChanged d in (d1, RefreshCall # e1))
         else (d, [RefreshCall]))
      else (d, []))"

section \<open>Example devices\<close>

text \<open>
  A plain volume \<open>sdb1\<close> that reports two mount points, and a locked encrypted
  container \<open>sdc1\<close> for which no block device names it as its backing device. Devices
  that are not encrypted report \<open>/\<close> as their backing device.
\<close>

definition plain_volume :: udisks where
  "plain_volume =
     \<lparr>udi = ''/org/freedesktop/UDisks2/block_devices/sdb1'',
      isEncryptedContainer = False,
      isOpticalDisc = False,
      drivePath = ''/org/freedesktop/UDisks2/drives/Stick'',
      introspect = Some [Some ''sda'', Some ''sdb'', Some ''sdb1''],
      isMounted = (\<lambda>p. p = ''/org/freedesktop/UDisks2/block_devices/sdb1''),
      propMountPoints =
        (\<lambda>p. if p = ''/org/freedesktop/UDisks2/block_devices/sdb1''
              then [''/media/foo/bar'', ''/run/media/foo''] else []),
      propCryptoBackingDevice = (\<lambda>p. ''/''),
      propMediaRemovable = (\<lambda>p. True),
      propMediaAvailable = (\<lambda>p. True),
      propCanPowerOff = (\<lambda>p. True),
      propIdType = (\<lambda>p. ''vfat''),
      propHintIgnore = (\<lambda>p. False),
      decodeName = (\<lambda>b. b),
      callWithCallback = (\<lambda>c. True),
      showPassphraseDialogValid = True,
      baseService = '':1.42'',
      focusWindow = None,
      applicationName = ''dolphin'',
      homePath = ''/home/user'',
      errorToSolidError = (\<lambda>n. OperationFailed),
      errorToString = (\<lambda>n. ''An unspecified error has occurred'')\<rparr>"

definition luks_locked :: udisks where
  "luks_locked =
     plain_volume
       \<lparr>udi := ''/org/freedesktop/UDisks2/block_devices/sdc1'',
        isEncryptedContainer := True,
        introspect := Some [Some ''sda'', None, Some ''sdc1''],
        isMounted := (\<lambda>p. False),
        propMountPoints := (\<lambda>p. []),
        propIdType := (\<lambda>p. ''crypto_LUKS'')\<rparr>"

text \<open>
  The same container once unlocked: \<open>dm-0\<close> names it as its backing device and is
  mounted.
\<close>

definition luks_unlocked :: udisks where
  "luks_unlocked =
     luks_locked
       \<lparr>introspect := Some [Some ''sda'', Some ''dm-0'', Some ''sdc1''],
        propCryptoBackingDevice :=
          (\<lambda>p. if p = ''/org/freedesktop/UDisks2/block_devices/dm-0''
                then ''/org/freedesktop/UDisks2/block_devices/sdc1'' else ''/''),
        isMounted := (\<lambda>p. p = ''/org/freedesktop/UDisks2/block_devices/dm-0''),
        propMountPoints :=
          (\<lambda>p. if p = ''/org/freedesktop/UDisks2/block_devices/dm-0''
                then [''/run/media/user/secret''] else [])\<rparr>"

text \<open>The adapter with no operation in progress, before any passphrase request.\<close>

definition idle :: StorageAccess where
  "idle =
     \<lparr>m_setupInProgress = False,
      m_teardownInProgress = False,
      m_passphraseRequested = False,
      m_isAccessible = False,
      m_lastReturnObject = [],
      number = 1\<rparr>"

text \<open>
  A variant that holds an unsigned number or a string; \<open>conv\<close> reads a number as
  itself and a string as itself, and anything else as 0 and as the empty string. Two
  UPower devices: a Bluetooth headset of unknown kind, and a service that answers
  nothing.
\<close>

datatype uint_or_string = UInt "32 word" | String string

definition conv :: "uint_or_string QVariant_conv" where
  "conv =
     \<lparr>toUInt = (\<lambda>v. case v of Some (UInt n) \<Rightarrow> n | _ \<Rightarrow> 0),
      toString = (\<lambda>v. case v of Some (String t) \<Rightarrow> t | _ \<Rightarrow> [])\<rparr>"

definition headset :: "uint_or_string upower" where
  "headset =
     \<lparr>getAll = Some [(''NativePath'', Some (String ''/org/bluez/hci0/dev_00_11'')),
                     (''Type'', Some (UInt 0))],
      property = (\<lambda>k. None),
      refreshValid = True\<rparr>"

definition silent :: "uint_or_string upower" where
  "silent = \<lparr>getAll = None, property = (\<lambda>k. None), refreshValid = False\<rparr>"

text \<open>
  A battery whose properties all come with \<open>GetAll\<close>, and a line-power adapter of a
  service that does not answer \<open>GetAll\<close> but answers single property reads.
\<close>

definition laptop_battery :: "uint_or_string upower" where
  "laptop_battery =
     \<lparr>getAll = Some [(''NativePath'', Some (String ''BAT0'')), (''Type'', Some (UInt 2))],
      property = (\<lambda>k. None),
      refreshValid = True\<rparr>"

definition ac_adapter :: "uint_or_string upower" where
  "ac_adapter =
     \<lparr>getAll = None,
      property = (\<lambda>k. if k = ''Type'' then Some (UInt 1) else None),
      refreshValid = True\<rparr>"

section \<open>Notions used to state the properties\<close>

text \<open>
  The change events a sequence of notifications should produce, starting from the cached
  value \<open>cached\<close>: one event for each notification at which the accessibility differs
  from the value before it, none otherwise.
\<close>

fun transitions :: "bool \<Rightarrow> udisks list \<Rightarrow> effect list" where
  "transitions cached [] = []"
| "transitions cached (w # ws) =
     (if isAccessible w \<noteq> cached
      then [AccessibilityChanged (isAccessible w) (udi w)] else [])
     @ transitions (isAccessible w) ws"

text \<open>
  \<open>shortest_in ds d\<close>: no path of \<open>ds\<close> is shorter than \<open>d\<close>.
  \<open>first_shortest ds\<close>: the first path of \<open>ds\<close>, in list order, that no path of
  \<open>ds\<close> is shorter than; the empty string when \<open>ds\<close> is empty.
\<close>

definition shortest_in :: "string list \<Rightarrow> string \<Rightarrow> bool" where
  "shortest_in ds d = (\<forall>e \<in> set ds. length d \<le> length e)"

definition first_shortest :: "string list \<Rightarrow> string" where
  "first_shortest ds =
     (case List.find (shortest_in ds) ds of
        Some d \<Rightarrow> d
      | None \<Rightarrow> [])"

text \<open>
  A cleartext sibling is discoverable: the \<open>Introspect\<close> reply is valid and one of its
  named nodes is a block device whose \<open>CryptoBackingDevice\<close> is this device.
\<close>

definition hasCleartextSibling :: "udisks \<Rightarrow> bool" where
  "hasCleartextSibling w =
     (case introspect w of
        None \<Rightarrow> False
      | Some nodes \<Rightarrow>
          list_ex (\<lambda>n. case n of
                         None \<Rightarrow> False
                       | Some name \<Rightarrow>
                           propCryptoBackingDevice w (block_devices_prefix @ ''/'' @ name) = udi w)
            nodes)"

section \<open>Properties\<close>

lemmas UpDeviceKind_defs =
  UP_DEVICE_KIND_UNKNOWN_def UP_DEVICE_KIND_LINE_POWER_def UP_DEVICE_KIND_BATTERY_def
  UP_DEVICE_KIND_UPS_def UP_DEVICE_KIND_MONITOR_def UP_DEVICE_KIND_MOUSE_def
  UP_DEVICE_KIND_KEYBOARD_def UP_DEVICE_KIND_PDA_def UP_DEVICE_KIND_PHONE_def
  UP_DEVICE_KIND_MEDIA_PLAYER_def UP_DEVICE_KIND_TABLET_def UP_DEVICE_KIND_COMPUTER_def
  UP_DEVICE_KIND_GAMING_INPUT_def UP_DEVICE_KIND_LAST_def

subsection \<open>The in-progress guard\<close>

text \<open>
  C1. A call to \<open>setup()\<close> or \<open>teardown()\<close> made while the setup-in-progress or the
  teardown-in-progress flag is set returns false, leaves every field of the adapter as
  it was and has no effect: no broadcast, no signal, no call.
\<close>

theorem setup_teardown_rejected_while_in_progress:
  assumes "m_setupInProgress s \<or> m_teardownInProgress s"
  shows "StorageAccess_setup w s = (False, s, []) \<and>
         StorageAccess_teardown w s = (False, s, [])"
  using assms by (auto simp: StorageAccess_setup_def StorageAccess_teardown_def)

theorem setup_teardown_rejected_witness:
  "(m_setupInProgress (idle\<lparr>m_teardownInProgress := True\<rparr>) \<or>
    m_teardownInProgress (idle\<lparr>m_teardownInProgress := True\<rparr>)) \<and>
   StorageAccess_setup plain_volume (idle\<lparr>m_teardownInProgress := True\<rparr>) =
     (False, idle\<lparr>m_teardownInProgress := True\<rparr>, []) \<and>
   StorageAccess_teardown plain_volume (idle\<lparr>m_teardownInProgress := True\<rparr>) =
     (False, idle\<lparr>m_teardownInProgress := True\<rparr>, [])"
  using setup_teardown_rejected_while_in_progress
          [of "idle\<lparr>m_teardownInProgress := True\<rparr>" plain_volume]
  by (simp add: idle_def)

subsection \<open>Accessibility events\<close>

lemma checkAccessibility_eq:
  "checkAccessibility w s =
     (s\<lparr>m_isAccessible := isAccessible w\<rparr>,
      if isAccessible w \<noteq> m_isAccessible s
      then [AccessibilityChanged (isAccessible w) (udi w)] else [])"
  by (auto simp: checkAccessibility_def updateCache_def Let_def)

lemma deviceChanged_Cons:
  "snd (deviceChanged (w # ws) s) =
     snd (checkAccessibility w s) @ snd (deviceChanged ws (fst (checkAccessibility w s)))"
  by (simp add: split_beta)

lemma deviceChanged_effects:
  "snd (deviceChanged ws s) = transitions (m_isAccessible s) ws"
proof (induction ws arbitrary: s)
  case Nil
  show ?case by simp
next
  case (Cons w ws)
  have "snd (deviceChanged (w # ws) s) =
          snd (checkAccessibility w s) @ transitions (isAccessible w) ws"
    unfolding deviceChanged_Cons Cons.IH by (simp add: checkAccessibility_eq)
  then show ?case by (simp add: checkAccessibility_eq)
qed

text \<open>
  C3. \<open>checkAccessibility\<close> stores the recomputed accessibility and emits
  \<open>accessibilityChanged\<close>, once and with the new value, exactly when that value differs
  from the cached one; otherwise it emits nothing. Over any sequence of device-change
  notifications the events emitted are therefore one per transition.
\<close>

theorem accessibilityChanged_iff_transition:
  "fst (checkAccessibility w s) = s\<lparr>m_isAccessible := isAccessible w\<rparr> \<and>
   (AccessibilityChanged (isAccessible w) (udi w) \<in> set (snd (checkAccessibility w s))
      \<longleftrightarrow> isAccessible w \<noteq> m_isAccessible s) \<and>
   snd (checkAccessibility w s) =
     (if isAccessible w \<noteq> m_isAccessible s
      then [AccessibilityChanged (isAccessible w) (udi w)] else []) \<and>
   snd (deviceChanged ws s) = transitions (m_isAccessible s) ws"
  by (simp add: checkAccessibility_eq deviceChanged_effects)

theorem accessibilityChanged_witness:
  "snd (checkAccessibility plain_volume idle) =
     [AccessibilityChanged True ''/org/freedesktop/UDisks2/block_devices/sdb1''] \<and>
   snd (checkAccessibility luks_locked idle) = [] \<and>
   snd (deviceChanged [plain_volume, plain_volume, luks_locked, luks_locked, luks_unlocked] idle) =
     [AccessibilityChanged True ''/org/freedesktop/UDisks2/block_devices/sdb1'',
      AccessibilityChanged False ''/org/freedesktop/UDisks2/block_devices/sdc1'',
      AccessibilityChanged True ''/org/freedesktop/UDisks2/block_devices/sdc1'']"
  using accessibilityChanged_iff_transition [of plain_volume idle "[]"]
        accessibilityChanged_iff_transition [of luks_locked idle
          "[plain_volume, plain_volume, luks_locked, luks_locked, luks_unlocked]"]
  by (simp add: idle_def isAccessible_def isLuksDevice_def clearTextPath_def
        block_devices_prefix_def plain_volume_def luks_locked_def luks_unlocked_def)

subsection \<open>The path of a device with several mount points\<close>

lemma first_shortest_step:
  "first_shortest (sh # dm # rest) =
     first_shortest ((if length dm < length sh then dm else sh) # rest)"
proof (cases "length dm < length sh")
  case True
  have 1: "\<not> shortest_in (sh # dm # rest) sh"
    using True by (auto simp: shortest_in_def)
  have 2: "find (shortest_in (sh # dm # rest)) (dm # rest) =
           find (shortest_in (dm # rest)) (dm # rest)"
    by (rule find_cong [OF refl]) (use True in \<open>auto simp: shortest_in_def\<close>)
  have "find (shortest_in (sh # dm # rest)) (sh # dm # rest) =
        find (shortest_in (sh # dm # rest)) (dm # rest)"
    using 1 by (simp only: find.simps if_False)
  also note 2
  finally show ?thesis
    by (simp only: first_shortest_def True if_True)
next
  case False
  show ?thesis
  proof (cases "shortest_in (sh # rest) sh")
    case True
    then have "shortest_in (sh # dm # rest) sh"
      using False by (auto simp: shortest_in_def)
    with True False show ?thesis
      by (simp add: first_shortest_def)
  next
    case nmin: False
    have 1: "\<not> shortest_in (sh # dm # rest) sh"
      using nmin by (auto simp: shortest_in_def)
    have 2: "\<not> shortest_in (sh # dm # rest) dm"
      using nmin False by (fastforce simp: shortest_in_def)
    have 3: "find (shortest_in (sh # dm # rest)) rest = find (shortest_in (sh # rest)) rest"
      by (rule find_cong [OF refl]) (use False in \<open>auto simp: shortest_in_def\<close>)
    have "find (shortest_in (sh # dm # rest)) (sh # dm # rest) =
          find (shortest_in (sh # dm # rest)) rest"
      using 1 2 by (simp only: find.simps if_False)
    also note 3
    also have "find (shortest_in (sh # rest)) rest = find (shortest_in (sh # rest)) (sh # rest)"
      using nmin by (simp only: find.simps if_False)
    finally show ?thesis
      using False by (simp only: first_shortest_def if_False)
  qed
qed

lemma get_shortest_from_first_shortest:
  "get_shortest_from dec shortest ms = first_shortest (shortest # map dec ms)"
proof (induction ms arbitrary: shortest)
  case Nil
  show ?case by (simp add: first_shortest_def shortest_in_def)
next
  case (Cons m ms)
  show ?case
    by (simp only: get_shortest_from.simps Let_def Cons.IH list.map first_shortest_step)
qed

lemma get_shortest_first_shortest:
  "get_shortest dec ms = first_shortest (map dec ms)"
proof (cases ms)
  case Nil
  then show ?thesis by (simp add: get_shortest_def first_shortest_def)
next
  case (Cons m ms')
  then show ?thesis by (simp add: get_shortest_def get_shortest_from_first_shortest)
qed

lemma ex_shortest_in: "ds \<noteq> [] \<Longrightarrow> \<exists>d \<in> set ds. shortest_in ds d"
proof -
  assume ne: "ds \<noteq> []"
  have "arg_min_list length ds \<in> set ds" using ne by (rule arg_min_list_in)
  moreover have "shortest_in ds (arg_min_list length ds)"
    using ne by (simp add: shortest_in_def f_arg_min_list_f)
  ultimately show ?thesis by blast
qed

lemma first_shortest_index:
  assumes "ds \<noteq> []"
  shows "\<exists>i<length ds. first_shortest ds = ds ! i \<and>
           (\<forall>j<length ds. length (ds ! i) \<le> length (ds ! j)) \<and>
           (\<forall>j<i. length (ds ! i) < length (ds ! j))"
proof -
  from ex_shortest_in [OF assms] obtain r where r: "find (shortest_in ds) ds = Some r"
    by (cases "find (shortest_in ds) ds") (auto simp: find_None_iff)
  then obtain i where i: "i < length ds" "shortest_in ds (ds ! i)" "r = ds ! i"
      "\<forall>j<i. \<not> shortest_in ds (ds ! j)"
    by (auto simp: find_Some_iff)
  have min: "\<forall>j<length ds. length (ds ! i) \<le> length (ds ! j)"
    using i(2) by (simp add: shortest_in_def)
  have strict: "length (ds ! i) < length (ds ! j)" if "j < i" for j
  proof -
    from i(4) that obtain e where e: "e \<in> set ds" "length e < length (ds ! j)"
      by (auto simp: shortest_in_def not_le)
    moreover have "length (ds ! i) \<le> length e"
      using i(2) e(1) by (simp add: shortest_in_def)
    ultimately show ?thesis by simp
  qed
  have "first_shortest ds = ds ! i"
    using r i(3) by (simp add: first_shortest_def)
  with i(1) min strict show ?thesis by blast
qed

text \<open>
  C4 (amended). When the device whose mount points are read (the device itself, or the
  cleartext holder of an encrypted container) reports at least one mount point,
  \<open>filePath()\<close> returns the first of the decoded paths, in the order reported, that
  no other is shorter than: a path of minimal length, and every path reported before it
  is strictly longer. The two paths \<open>/media/foo/bar\<close> and \<open>/run/media/foo\<close> have the
  same length, so of these two the one reported first is returned.
\<close>

theorem filePath_shortest_first_seen:
  assumes "ds = map (decodeName w)
                  (propMountPoints w (if isLuksDevice w then clearTextPath w else udi w))"
      and "isLuksDevice w \<longrightarrow> clearTextPath w \<noteq> [] \<and> clearTextPath w \<noteq> ''/''"
      and "ds \<noteq> []"
  shows "filePath w = first_shortest ds \<and>
         (\<exists>i<length ds. filePath w = ds ! i \<and>
            (\<forall>j<length ds. length (ds ! i) \<le> length (ds ! j)) \<and>
            (\<forall>j<i. length (ds ! i) < length (ds ! j))) \<and>
         length ''/media/foo/bar'' = length ''/run/media/foo'' \<and>
         get_shortest (\<lambda>b. b) [''/media/foo/bar'', ''/run/media/foo''] = ''/media/foo/bar'' \<and>
         get_shortest (\<lambda>b. b) [''/run/media/foo'', ''/media/foo/bar''] = ''/run/media/foo''"
proof -
  have fp: "filePath w = first_shortest ds"
    using assms(1,2) by (simp add: filePath_def Let_def get_shortest_first_shortest)
  have ex: "get_shortest (\<lambda>b. b) [''/media/foo/bar'', ''/run/media/foo''] = ''/media/foo/bar''"
           "get_shortest (\<lambda>b. b) [''/run/media/foo'', ''/media/foo/bar''] = ''/run/media/foo''"
    by (simp_all add: get_shortest_def)
  show ?thesis
    using first_shortest_index [OF assms(3)] fp ex by simp
qed

theorem filePath_shortest_witness:
  "map (decodeName plain_volume) (propMountPoints plain_volume (udi plain_volume)) =
     [''/media/foo/bar'', ''/run/media/foo''] \<and>
   filePath plain_volume = first_shortest [''/media/foo/bar'', ''/run/media/foo''] \<and>
   first_shortest [''/media/foo/bar'', ''/run/media/foo''] = ''/media/foo/bar''"
  using filePath_shortest_first_seen
          [of "[''/media/foo/bar'', ''/run/media/foo'']" plain_volume]
  by (simp add: plain_volume_def isLuksDevice_def first_shortest_def shortest_in_def)

text \<open>
  C4 as stated fails: for the mount points \<open>/media/foo/bar\<close>, \<open>/run/media/foo\<close>, in
  this order, the path returned is \<open>/media/foo/bar\<close>, not \<open>/run/media/foo\<close>.
\<close>

theorem filePath_example_counterexample:
  "propMountPoints plain_volume (udi plain_volume) = [''/media/foo/bar'', ''/run/media/foo''] \<and>
   filePath plain_volume = ''/media/foo/bar'' \<and>
   filePath plain_volume \<noteq> ''/run/media/foo''"
  by (simp add: filePath_def plain_volume_def isLuksDevice_def get_shortest_def)

subsection \<open>The path of a device without mount points\<close>

lemma clearTextPath_not_root: "clearTextPath w \<noteq> ''/''"
proof -
  have "scanNodes w nodes \<noteq> ''/''" for nodes
    by (induction w nodes rule: scanNodes.induct)
       (auto simp: Let_def block_devices_prefix_def)
  then show ?thesis by (simp add: clearTextPath_def split: option.split)
qed

text \<open>
  C10. \<open>filePath()\<close> returns the empty string when the device whose mount points are
  read reports none (the device itself, or the cleartext holder of an encrypted
  container), and when the device is an encrypted container whose cleartext path is empty
  or \<open>/\<close>. (By \<open>clearTextPath_not_root\<close> the path \<open>/\<close> is never what
  \<open>clearTextPath\<close> returns.)
\<close>

theorem filePath_empty:
  "(\<not> isLuksDevice w \<and> propMountPoints w (udi w) = [] \<longrightarrow> filePath w = []) \<and>
   (isLuksDevice w \<and> propMountPoints w (clearTextPath w) = [] \<longrightarrow> filePath w = []) \<and>
   (isLuksDevice w \<and> (clearTextPath w = [] \<or> clearTextPath w = ''/'') \<longrightarrow> filePath w = [])"
  by (auto simp: filePath_def get_shortest_def Let_def)

theorem filePath_empty_witness:
  "\<not> isLuksDevice (plain_volume\<lparr>propMountPoints := (\<lambda>p. [])\<rparr>) \<and>
   filePath (plain_volume\<lparr>propMountPoints := (\<lambda>p. [])\<rparr>) = [] \<and>
   isLuksDevice (luks_unlocked\<lparr>propMountPoints := (\<lambda>p. [])\<rparr>) \<and>
   clearTextPath (luks_unlocked\<lparr>propMountPoints := (\<lambda>p. [])\<rparr>) =
     ''/org/freedesktop/UDisks2/block_devices/dm-0'' \<and>
   filePath (luks_unlocked\<lparr>propMountPoints := (\<lambda>p. [])\<rparr>) = [] \<and>
   isLuksDevice luks_locked \<and> clearTextPath luks_locked = [] \<and>
   filePath luks_locked = []"
  using filePath_empty [of "plain_volume\<lparr>propMountPoints := (\<lambda>p. [])\<rparr>"]
        filePath_empty [of "luks_unlocked\<lparr>propMountPoints := (\<lambda>p. [])\<rparr>"]
        filePath_empty [of luks_locked]
  by (simp add: plain_volume_def luks_locked_def luks_unlocked_def isLuksDevice_def
        clearTextPath_def block_devices_prefix_def)

subsection \<open>Setup: passphrase or mount\<close>

lemma scanNodes_empty_iff:
  "scanNodes w nodes = [] \<longleftrightarrow>
     \<not> list_ex (\<lambda>n. case n of
                      None \<Rightarrow> False
                    | Some name \<Rightarrow>
                        propCryptoBackingDevice w (block_devices_prefix @ ''/'' @ name) = udi w)
          nodes"
  by (induction w nodes rule: scanNodes.induct)
     (auto simp: Let_def block_devices_prefix_def)

lemma clearTextPath_empty_iff: "clearTextPath w = [] \<longleftrightarrow> \<not> hasCleartextSibling w"
  by (simp add: clearTextPath_def hasCleartextSibling_def scanNodes_empty_iff
        split: option.split)

lemma requestPassphrase_eq:
  "requestPassphrase w s =
     (let ret = ''/org/kde/solid/UDisks2StorageAccess_'' @ QString_number (sint (number s))
      in (showPassphraseDialogValid w,
          s\<lparr>number := number s + 1, m_lastReturnObject := ret,
            m_passphraseRequested := showPassphraseDialogValid w\<rparr>,
          [RegisterObject ret,
           ShowPassphraseDialog (udi w) (baseService w) ret
             (case focusWindow w of None \<Rightarrow> 0 | Some i \<Rightarrow> i) (applicationName w)]))"
  by (simp add: requestPassphrase_def generateReturnObjectPath_def Let_def)

lemma number_1: "QString_number 1 = ''1''"
  by (simp add: QString_number_def number_nat.simps)

text \<open>
  C5. With no operation in progress, \<open>setup()\<close> on an encrypted container that has no
  discoverable cleartext sibling sets the setup flag, broadcasts the request and calls
  the passphrase dialog, with no call to the storage service; on a device that is not an
  encrypted container, or whose cleartext sibling exists, it sets the flag, broadcasts
  the request and sends \<open>Mount\<close> (to the cleartext sibling of an encrypted container,
  otherwise to the device), with no call to the passphrase dialog.
\<close>

theorem setup_passphrase_or_mount:
  assumes "\<not> m_setupInProgress s" and "\<not> m_teardownInProgress s"
  shows "(isEncryptedContainer w \<and> \<not> hasCleartextSibling w \<longrightarrow>
            StorageAccess_setup w s =
              (let ret = ''/org/kde/solid/UDisks2StorageAccess_'' @
                           QString_number (sint (number s))
               in (showPassphraseDialogValid w,
                   s\<lparr>m_setupInProgress := True, number := number s + 1,
                     m_lastReturnObject := ret,
                     m_passphraseRequested := showPassphraseDialogValid w\<rparr>,
                   [BroadcastActionRequested ''setup'', RegisterObject ret,
                    ShowPassphraseDialog (udi w) (baseService w) ret
                      (case focusWindow w of None \<Rightarrow> 0 | Some i \<Rightarrow> i)
                      (applicationName w)]))) \<and>
         (\<not> isEncryptedContainer w \<or> hasCleartextSibling w \<longrightarrow>
            StorageAccess_setup w s =
              (let msg = Mount (if isEncryptedContainer w then clearTextPath w else udi w)
                           (propIdType w (udi w) = ''vfat'')
               in (callWithCallback w msg, s\<lparr>m_setupInProgress := True\<rparr>,
                   [BroadcastActionRequested ''setup'', SystemBusCall msg])))"
proof (intro conjI impI)
  assume "isEncryptedContainer w \<and> \<not> hasCleartextSibling w"
  then have "isEncryptedContainer w \<and> clearTextPath w = []"
    by (simp add: clearTextPath_empty_iff)
  then show "StorageAccess_setup w s =
              (let ret = ''/org/kde/solid/UDisks2StorageAccess_'' @
                           QString_number (sint (number s))
               in (showPassphraseDialogValid w,
                   s\<lparr>m_setupInProgress := True, number := number s + 1,
                     m_lastReturnObject := ret,
                     m_passphraseRequested := showPassphraseDialogValid w\<rparr>,
                   [BroadcastActionRequested ''setup'', RegisterObject ret,
                    ShowPassphraseDialog (udi w) (baseService w) ret
                      (case focusWindow w of None \<Rightarrow> 0 | Some i \<Rightarrow> i)
                      (applicationName w)]))"
    using assms by (simp add: StorageAccess_setup_def requestPassphrase_eq Let_def)
next
  assume "\<not> isEncryptedContainer w \<or> hasCleartextSibling w"
  then have "\<not> (isEncryptedContainer w \<and> clearTextPath w = [])"
    by (auto simp: clearTextPath_empty_iff)
  then show "StorageAccess_setup w s =
              (let msg = Mount (if isEncryptedContainer w then clearTextPath w else udi w)
                           (propIdType w (udi w) = ''vfat'')
               in (callWithCallback w msg, s\<lparr>m_setupInProgress := True\<rparr>,
                   [BroadcastActionRequested ''setup'', SystemBusCall msg]))"
    using assms
    by (auto simp: StorageAccess_setup_def mount_def isLuksDevice_def Let_def)
qed

theorem setup_passphrase_or_mount_witness:
  "isEncryptedContainer luks_locked \<and> hasCleartextSibling luks_locked = False \<and>
   StorageAccess_setup luks_locked idle =
     (True,
      idle\<lparr>m_setupInProgress := True, number := 2,
           m_lastReturnObject := ''/org/kde/solid/UDisks2StorageAccess_1'',
           m_passphraseRequested := True\<rparr>,
      [BroadcastActionRequested ''setup'',
       RegisterObject ''/org/kde/solid/UDisks2StorageAccess_1'',
       ShowPassphraseDialog ''/org/freedesktop/UDisks2/block_devices/sdc1'' '':1.42''
         ''/org/kde/solid/UDisks2StorageAccess_1'' 0 ''dolphin'']) \<and>
   isEncryptedContainer plain_volume = False \<and>
   StorageAccess_setup plain_volume idle =
     (True, idle\<lparr>m_setupInProgress := True\<rparr>,
      [BroadcastActionRequested ''setup'',
       SystemBusCall (Mount ''/org/freedesktop/UDisks2/block_devices/sdb1'' True)]) \<and>
   hasCleartextSibling luks_unlocked \<and>
   StorageAccess_setup luks_unlocked idle =
     (True, idle\<lparr>m_setupInProgress := True\<rparr>,
      [BroadcastActionRequested ''setup'',
       SystemBusCall (Mount ''/org/freedesktop/UDisks2/block_devices/dm-0'' False)])"
  using setup_passphrase_or_mount [of idle luks_locked]
        setup_passphrase_or_mount [of idle plain_volume]
        setup_passphrase_or_mount [of idle luks_unlocked]
  by (simp add: idle_def plain_volume_def luks_locked_def luks_unlocked_def
        hasCleartextSibling_def clearTextPath_def block_devices_prefix_def number_1 Let_def)

subsection \<open>Cancelled passphrase and failed dialog call\<close>

text \<open>
  C2 (amended). An empty passphrase reply to a pending passphrase request clears the
  setup-in-progress flag and broadcasts the completion of the setup with
  \<open>UserCanceled\<close>, and no call goes to the storage service. When the call to the
  passphrase dialog fails, \<open>setup()\<close> returns false at once, and no call goes to the
  storage service.
\<close>

theorem passphrase_cancel_and_prompt_failure:
  "(m_passphraseRequested s \<longrightarrow>
      passphraseReply w s [] =
        (s\<lparr>m_passphraseRequested := False, m_setupInProgress := False\<rparr>,
         [UnregisterObject (m_lastReturnObject s),
          BroadcastActionDone ''setup'' UserCanceled []])) \<and>
   (\<not> m_setupInProgress s \<and> \<not> m_teardownInProgress s \<and>
    isEncryptedContainer w \<and> clearTextPath w = [] \<and> \<not> showPassphraseDialogValid w \<longrightarrow>
      fst (StorageAccess_setup w s) = False \<and>
      snd (snd (StorageAccess_setup w s)) =
        (let ret = ''/org/kde/solid/UDisks2StorageAccess_'' @ QString_number (sint (number s))
         in [BroadcastActionRequested ''setup'', RegisterObject ret,
             ShowPassphraseDialog (udi w) (baseService w) ret
               (case focusWindow w of None \<Rightarrow> 0 | Some i \<Rightarrow> i) (applicationName w)]))"
  by (simp add: passphraseReply_def StorageAccess_setup_def requestPassphrase_eq Let_def)

theorem passphrase_cancel_and_prompt_failure_witness:
  "m_passphraseRequested (fst (snd (StorageAccess_setup luks_locked idle))) \<and>
   passphraseReply luks_locked (fst (snd (StorageAccess_setup luks_locked idle))) [] =
     (idle\<lparr>number := 2, m_lastReturnObject := ''/org/kde/solid/UDisks2StorageAccess_1''\<rparr>,
      [UnregisterObject ''/org/kde/solid/UDisks2StorageAccess_1'',
       BroadcastActionDone ''setup'' UserCanceled []]) \<and>
   showPassphraseDialogValid (luks_locked\<lparr>showPassphraseDialogValid := False\<rparr>) = False \<and>
   fst (StorageAccess_setup (luks_locked\<lparr>showPassphraseDialogValid := False\<rparr>) idle) = False \<and>
   snd (snd (StorageAccess_setup (luks_locked\<lparr>showPassphraseDialogValid := False\<rparr>) idle)) =
     [BroadcastActionRequested ''setup'',
      RegisterObject ''/org/kde/solid/UDisks2StorageAccess_1'',
      ShowPassphraseDialog ''/org/freedesktop/UDisks2/block_devices/sdc1'' '':1.42''
        ''/org/kde/solid/UDisks2StorageAccess_1'' 0 ''dolphin'']"
  using passphrase_cancel_and_prompt_failure
          [of "fst (snd (StorageAccess_setup luks_locked idle))" luks_locked]
        passphrase_cancel_and_prompt_failure
          [of idle "luks_locked\<lparr>showPassphraseDialogValid := False\<rparr>"]
  by (simp add: StorageAccess_setup_def requestPassphrase_eq idle_def plain_volume_def
        luks_locked_def clearTextPath_def block_devices_prefix_def number_1 Let_def)

text \<open>
  C2 as stated fails for the failed dialog call: \<open>setup()\<close> returns false, but the
  setup-in-progress flag stays set and no completion is broadcast.
\<close>

theorem prompt_failure_counterexample:
  "StorageAccess_setup (luks_locked\<lparr>showPassphraseDialogValid := False\<rparr>) idle =
     (False,
      \<lparr>m_setupInProgress = True, m_teardownInProgress = False,
       m_passphraseRequested = False, m_isAccessible = False,
       m_lastReturnObject = ''/org/kde/solid/UDisks2StorageAccess_1'', number = 2\<rparr>,
      [BroadcastActionRequested ''setup'',
       RegisterObject ''/org/kde/solid/UDisks2StorageAccess_1'',
       ShowPassphraseDialog ''/org/freedesktop/UDisks2/block_devices/sdc1'' '':1.42''
         ''/org/kde/solid/UDisks2StorageAccess_1'' 0 ''dolphin''])"
  by (simp add: StorageAccess_setup_def requestPassphrase_eq idle_def plain_volume_def
        luks_locked_def clearTextPath_def block_devices_prefix_def number_1 Let_def)

subsection \<open>The guard before eject and power-off\<close>

text \<open>
  C8. The test \<open>!drivePath.isEmpty() || drivePath != "/"\<close> holds for every drive
  path, the empty one included: the eject / power-off attempt is made whatever the
  drive path is.
\<close>

theorem drivePathGuard_always_true:
  "drivePathGuard path \<and>
   ejectOrPowerOff w =
     (if propMediaRemovable w (drivePath w) \<and> propMediaAvailable w (drivePath w) \<and>
         \<not> isOpticalDisc w
      then [SystemBusCall (Eject (drivePath w))]
      else if propCanPowerOff w (drivePath w) \<and> \<not> isOpticalDisc w
      then [SystemBusCall (PowerOff (drivePath w))]
      else [])"
proof -
  have g: "drivePathGuard p" for p
    by (cases "p = []") (simp_all add: drivePathGuard_def)
  show ?thesis by (simp add: g ejectOrPowerOff_def Let_def)
qed

theorem drivePathGuard_witness:
  "drivePathGuard [] \<and>
   ejectOrPowerOff (plain_volume\<lparr>drivePath := []\<rparr>) = [SystemBusCall (Eject [])] \<and>
   slotDBusReply (plain_volume\<lparr>drivePath := []\<rparr>) (idle\<lparr>m_teardownInProgress := True\<rparr>) =
     (idle\<lparr>m_isAccessible := True\<rparr>,
      [SystemBusCall (Eject []), InvalidateCache,
       BroadcastActionDone ''teardown'' NoError [],
       AccessibilityChanged True ''/org/freedesktop/UDisks2/block_devices/sdb1''])"
  using drivePathGuard_always_true [of "[]" "plain_volume\<lparr>drivePath := []\<rparr>"]
  by (simp add: slotDBusReply_def checkAccessibility_def updateCache_def isAccessible_def
        isLuksDevice_def clearTextPath_def block_devices_prefix_def idle_def plain_volume_def)

subsection \<open>The battery interface of a UPower device\<close>

lemma checkCache_cache:
  "m_cache (checkCache r d key) =
     (let c = (if m_cache d = [] then (case getAll r of Some reply \<Rightarrow> reply | None \<Rightarrow> [])
               else m_cache d)
      in if map_of c key \<noteq> None then c else AList.update key (property r key) c)"
  by (auto simp: checkCache_def allProperties_def cache_contains_def Let_def
           split: option.splits)

lemma checkCache_contains: "cache_contains (checkCache r d key) key"
  by (simp add: cache_contains_def checkCache_cache Let_def update_conv')

lemma checkCache_nonempty: "m_cache (checkCache r d key) \<noteq> []"
  using checkCache_contains [of r d key] by (auto simp: cache_contains_def)

lemma prop_after_prop:
  assumes "k \<noteq> key"
  shows "fst (UPowerDevice_prop r (snd (UPowerDevice_prop r d key)) k) =
         fst (UPowerDevice_prop r d k)"
proof -
  let ?d1 = "checkCache r d key"
  have ne: "m_cache ?d1 \<noteq> []" by (rule checkCache_nonempty)
  have "map_of (m_cache ?d1) k =
        map_of (if m_cache d = [] then (case getAll r of Some reply \<Rightarrow> reply | None \<Rightarrow> [])
                else m_cache d) k"
    using assms by (simp add: checkCache_cache Let_def update_conv')
  then show ?thesis
    using ne
    by (simp add: UPowerDevice_prop_def cache_value_def Let_def update_conv'
          checkCache_cache [of r "checkCache r d key" k] checkCache_cache [of r d k])
qed

text \<open>
  C6. With \<open>kind\<close> the value of the \<open>Type\<close> property and \<open>nativePath\<close> that of
  \<open>NativePath\<close>, the query for the battery interface answers true for the kinds
  battery, UPS, mouse, keyboard, PDA, phone and gaming input, false for line power,
  monitor, media player, tablet and computer, and for the kind unknown it answers
  whether the native path starts with \<open>/org/bluez/\<close>. It answers true in no other
  case.
\<close>

theorem queryDeviceInterface_Battery:
  assumes "kind = toUInt q (fst (UPowerDevice_prop r d ''Type''))"
      and "nativePath = toString q (fst (UPowerDevice_prop r d ''NativePath''))"
  shows "(kind \<in> {UP_DEVICE_KIND_BATTERY, UP_DEVICE_KIND_UPS, UP_DEVICE_KIND_MOUSE,
                  UP_DEVICE_KIND_KEYBOARD, UP_DEVICE_KIND_PDA, UP_DEVICE_KIND_PHONE,
                  UP_DEVICE_KIND_GAMING_INPUT} \<longrightarrow>
            fst (queryDeviceInterface q r d Battery)) \<and>
         (kind \<in> {UP_DEVICE_KIND_LINE_POWER, UP_DEVICE_KIND_MONITOR,
                  UP_DEVICE_KIND_MEDIA_PLAYER, UP_DEVICE_KIND_TABLET,
                  UP_DEVICE_KIND_COMPUTER} \<longrightarrow>
            \<not> fst (queryDeviceInterface q r d Battery)) \<and>
         (kind = UP_DEVICE_KIND_UNKNOWN \<longrightarrow>
            fst (queryDeviceInterface q r d Battery) = startsWith nativePath ''/org/bluez/'') \<and>
         (fst (queryDeviceInterface q r d Battery) \<longleftrightarrow>
            kind \<in> {UP_DEVICE_KIND_BATTERY, UP_DEVICE_KIND_UPS, UP_DEVICE_KIND_MOUSE,
                    UP_DEVICE_KIND_KEYBOARD, UP_DEVICE_KIND_PDA, UP_DEVICE_KIND_PHONE,
                    UP_DEVICE_KIND_GAMING_INPUT} \<or>
            kind = UP_DEVICE_KIND_UNKNOWN \<and> startsWith nativePath ''/org/bluez/'')"
proof -
  have np: "nativePath =
        toString q (fst (UPowerDevice_prop r (snd (UPowerDevice_prop r d ''Type'')) ''NativePath''))"
    using assms(2) by (simp add: prop_after_prop)
  have q: "fst (queryDeviceInterface q r d Battery) =
        (if kind = UP_DEVICE_KIND_BATTERY \<or> kind = UP_DEVICE_KIND_UPS \<or>
            kind = UP_DEVICE_KIND_MOUSE \<or> kind = UP_DEVICE_KIND_KEYBOARD \<or>
            kind = UP_DEVICE_KIND_PDA \<or> kind = UP_DEVICE_KIND_PHONE \<or>
            kind = UP_DEVICE_KIND_GAMING_INPUT then True
         else if kind = UP_DEVICE_KIND_UNKNOWN then startsWith nativePath ''/org/bluez/''
         else False)"
    unfolding np assms(1)
    by (simp add: queryDeviceInterface_def Let_def split_beta)
  show ?thesis
    unfolding q by (auto simp: UpDeviceKind_defs)
qed

theorem queryDeviceInterface_Battery_witness:
  "toUInt conv (fst (UPowerDevice_prop laptop_battery \<lparr>m_cache = []\<rparr> ''Type'')) =
     UP_DEVICE_KIND_BATTERY \<and>
   fst (queryDeviceInterface conv laptop_battery \<lparr>m_cache = []\<rparr> Battery) = True \<and>
   toUInt conv (fst (UPowerDevice_prop ac_adapter \<lparr>m_cache = []\<rparr> ''Type'')) =
     UP_DEVICE_KIND_LINE_POWER \<and>
   fst (queryDeviceInterface conv ac_adapter \<lparr>m_cache = []\<rparr> Battery) = False \<and>
   toUInt conv (fst (UPowerDevice_prop headset \<lparr>m_cache = []\<rparr> ''Type'')) =
     UP_DEVICE_KIND_UNKNOWN \<and>
   toString conv (fst (UPowerDevice_prop headset \<lparr>m_cache = []\<rparr> ''NativePath'')) =
     ''/org/bluez/hci0/dev_00_11'' \<and>
   fst (queryDeviceInterface conv headset \<lparr>m_cache = []\<rparr> Battery) = True \<and>
   toUInt conv (fst (UPowerDevice_prop silent \<lparr>m_cache = []\<rparr> ''Type'')) =
     UP_DEVICE_KIND_UNKNOWN \<and>
   toString conv (fst (UPowerDevice_prop silent \<lparr>m_cache = []\<rparr> ''NativePath'')) = [] \<and>
   fst (queryDeviceInterface conv silent \<lparr>m_cache = []\<rparr> Battery) = False"
  using queryDeviceInterface_Battery [OF refl refl, of conv laptop_battery "\<lparr>m_cache = []\<rparr>"]
        queryDeviceInterface_Battery [OF refl refl, of conv ac_adapter "\<lparr>m_cache = []\<rparr>"]
        queryDeviceInterface_Battery [OF refl refl, of conv headset "\<lparr>m_cache = []\<rparr>"]
        queryDeviceInterface_Battery [OF refl refl, of conv silent "\<lparr>m_cache = []\<rparr>"]
  by (simp add: UPowerDevice_prop_def checkCache_def allProperties_def cache_contains_def
        cache_value_def conv_def laptop_battery_def ac_adapter_def headset_def silent_def
        UpDeviceKind_defs startsWith_def)

subsection \<open>Resume from suspend\<close>

text \<open>
  C7. \<open>login1Resuming(false)\<close> makes one \<open>Refresh\<close> call. If the reply is valid it
  runs \<open>slotChanged\<close> once: the cache is cleared and one \<open>changed\<close> signal is
  emitted. If the reply is not valid the cache is left as it is and no signal is emitted.
\<close>

theorem login1Resuming_refresh:
  "login1Resuming r d False =
     (if refreshValid r then (d\<lparr>m_cache := []\<rparr>, [RefreshCall, ChangedSignal])
      else (d, [RefreshCall])) \<and>
   length (filter (\<lambda>e. e = RefreshCall) (snd (login1Resuming r d False))) = 1 \<and>
   length (filter (\<lambda>e. e = ChangedSignal) (snd (login1Resuming r d False))) =
     (if refreshValid r then 1 else 0) \<and>
   slotChanged d = (d\<lparr>m_cache := []\<rparr>, [ChangedSignal])"
  by (simp add: login1Resuming_def slotChanged_def)

theorem login1Resuming_refresh_witness:
  "refreshValid headset \<and>
   login1Resuming headset \<lparr>m_cache = [(''Type'', Some (UInt 0))]\<rparr> False =
     (\<lparr>m_cache = []\<rparr>, [RefreshCall, ChangedSignal]) \<and>
   refreshValid silent = False \<and>
   login1Resuming silent \<lparr>m_cache = [(''Type'', Some (UInt 0))]\<rparr> False =
     (\<lparr>m_cache = [(''Type'', Some (UInt 0))]\<rparr>, [RefreshCall])"
  using login1Resuming_refresh [of headset "\<lparr>m_cache = [(''Type'', Some (UInt 0))]\<rparr>"]
        login1Resuming_refresh [of silent "\<lparr>m_cache = [(''Type'', Some (UInt 0))]\<rparr>"]
  by (simp add: headset_def silent_def)

subsection \<open>Existence of a property\<close>

text \<open>
  C9. After \<open>prop(key)\<close> or \<open>propertyExists(key)\<close> the cache has an entry for
  \<open>key\<close>, which is the invalid variant when the key was not in the (re)loaded cache
  and the remote read failed; so \<open>propertyExists(key)\<close> returns true for every key.
\<close>

theorem propertyExists_always_true:
  "fst (propertyExists r d key) = True \<and>
   cache_contains (snd (propertyExists r d key)) key \<and>
   cache_contains (snd (UPowerDevice_prop r d key)) key \<and>
   (\<not> cache_contains (if m_cache d = [] then snd (allProperties r d) else d) key \<and>
    property r key = None \<longrightarrow>
      map_of (m_cache (snd (propertyExists r d key))) key = Some None \<and>
      map_of (m_cache (snd (UPowerDevice_prop r d key))) key = Some None)"
  by (auto simp: propertyExists_def UPowerDevice_prop_def Let_def checkCache_contains
        checkCache_cache update_conv' cache_contains_def allProperties_def
        split: option.splits)

theorem propertyExists_always_true_witness:
  "property silent ''NoSuchProperty'' = None \<and>
   propertyExists silent \<lparr>m_cache = []\<rparr> ''NoSuchProperty'' =
     (True, \<lparr>m_cache = [(''NoSuchProperty'', None)]\<rparr>) \<and>
   propertyExists headset \<lparr>m_cache = []\<rparr> ''NoSuchProperty'' =
     (True, \<lparr>m_cache = [(''NativePath'', Some (String ''/org/bluez/hci0/dev_00_11'')),
                        (''Type'', Some (UInt 0)), (''NoSuchProperty'', None)]\<rparr>)"
  using propertyExists_always_true [of silent "\<lparr>m_cache = []\<rparr>" "''NoSuchProperty''"]
        propertyExists_always_true [of headset "\<lparr>m_cache = []\<rparr>" "''NoSuchProperty''"]
  by (simp add: propertyExists_def checkCache_def allProperties_def cache_contains_def
        silent_def headset_def)

end
